theory Spec2Isabelle
  imports Main "HOL-Library.Sublist"
begin

section \<open>The HTTP boundary: headers, contexts, requests and response writers\<close>

text \<open>
  The middleware and the base server are written against Go's \<^verbatim>\<open>net/http\<close> and
  \<^verbatim>\<open>context\<close> packages. The parts of those packages that the code touches are embedded
  here as data: a header is a map from a (canonical) field name to the list of its values,
  a context is the chain of key/value pairs that \<^verbatim>\<open>context.WithValue\<close> builds, and a
  response writer is the status and body written so far.
\<close>

text \<open>Dynamic values (\<^verbatim>\<open>interface{}\<close>): what a JSON claim, a token header field or a
  context value can hold. The nil interface is \<open>None\<close> of \<open>any option\<close>.\<close>

datatype any =
    AnyString string
  | AnyNumber int
  | AnyBool bool
  | AnyList "any list"
  | AnyMap "(string \<times> any) list"

text \<open>Context keys are compared by dynamic type and value. \<open>contextKey\<close> is the
  package-private type of \<^verbatim>\<open>jwt.go\<close>; \<open>stringKey\<close> is a bare \<^verbatim>\<open>string\<close>;
  \<open>foreignKey T v\<close> is a key of any other named type \<open>T\<close>.\<close>

datatype ctx_key =
    contextKey string
  | stringKey string
  | foreignKey string string

datatype Context =
    Background
  | WithValue Context ctx_key any

fun Value :: "Context \<Rightarrow> ctx_key \<Rightarrow> any option" where
  "Value Background k = None"
| "Value (WithValue parent key val) k = (if key = k then Some val else Value parent k)"

type_synonym Header = "string \<rightharpoonup> string list"

text \<open>\<^verbatim>\<open>Header.Get\<close>: the first value of the field, or the empty string when the
  field is absent (or has no values).\<close>

definition Get :: "Header \<Rightarrow> string \<Rightarrow> string" where
  "Get h key = (case h key of None \<Rightarrow> [] | Some [] \<Rightarrow> [] | Some (v # _) \<Rightarrow> v)"

record Request =
  URLPath :: string
  Header :: Header
  Ctx :: Context

text \<open>A response writer: \<open>Code\<close> is \<open>None\<close> until the status line has been written.
  \<^verbatim>\<open>WriteHeader\<close> after the first one is ignored; \<^verbatim>\<open>Write\<close> before any
  \<^verbatim>\<open>WriteHeader\<close> sends status 200 first.\<close>

record ResponseWriter =
  Code :: "nat option"
  Body :: string

definition NewRecorder :: ResponseWriter where
  "NewRecorder = \<lparr>Code = None, Body = []\<rparr>"

definition WriteHeader :: "ResponseWriter \<Rightarrow> nat \<Rightarrow> ResponseWriter" where
  "WriteHeader w statusCode = (if Code w = None then w\<lparr>Code := Some statusCode\<rparr> else w)"

definition Write :: "ResponseWriter \<Rightarrow> string \<Rightarrow> ResponseWriter" where
  "Write w b =
     (let w' = (if Code w = None then w\<lparr>Code := Some 200\<rparr> else w)
      in w'\<lparr>Body := Body w' @ b\<rparr>)"

type_synonym Handler = "ResponseWriter \<Rightarrow> Request \<Rightarrow> ResponseWriter"

definition StatusOK :: nat where "StatusOK = 200"
definition StatusUnauthorized :: nat where "StatusUnauthorized = 401"
definition StatusServiceUnavailable :: nat where "StatusServiceUnavailable = 503"

text \<open>\<^verbatim>\<open>strings.CutPrefix\<close> and \<^verbatim>\<open>strings.HasPrefix\<close>.\<close>

definition CutPrefix :: "string \<Rightarrow> string \<Rightarrow> string \<times> bool" where
  "CutPrefix s p = (if prefix p s then (drop (length p) s, True) else (s, False))"

definition HasPrefix :: "string \<Rightarrow> string \<Rightarrow> bool" where
  "HasPrefix s p = prefix p s"

text \<open>\<^verbatim>\<open>strings.Contains\<close>, used to state what a response body holds.\<close>

fun Contains :: "string \<Rightarrow> string \<Rightarrow> bool" where
  "Contains [] substr = (substr = [])"
| "Contains (c # s) substr = (prefix substr (c # s) \<or> Contains s substr)"

text \<open>Modelled from the spec: \<^verbatim>\<open>response.WriteJSONError\<close> (package
  \<^verbatim>\<open>pkg/response\<close>) is called by the middleware but its source is not among the files.
  The spec gives its effect: the status code is sent and the body is the JSON object
  \<^verbatim>\<open>{"error":"<message>"}\<close>.\<close>

definition WriteJSONError :: "ResponseWriter \<Rightarrow> nat \<Rightarrow> string \<Rightarrow> ResponseWriter" where
  "WriteJSONError w statusCode message =
     Write (WriteHeader w statusCode)
       (''{'' @ [CHR 0x22] @ ''error'' @ [CHR 0x22] @ '':'' @ [CHR 0x22] @ message @ [CHR 0x22] @ ''}'')"

section \<open>The token library as the middleware sees it\<close>

text \<open>
  \<^verbatim>\<open>jwt.Parse\<close> belongs to \<^verbatim>\<open>github.com/golang-jwt/jwt/v5\<close>, an external dependency.
  Its cryptography, its base64/JSON decoding and its clock are not code of this repository:
  they are the fields of \<open>JWTLibrary\<close>, and every statement below holds for any choice
  of them. What is fixed is the order of the library's steps in \<open>Parse\<close>, since the
  middleware's key function runs in the middle of it.
\<close>

datatype SigningMethod =
    SigningMethodHMAC string
  | SigningMethodRSA string
  | SigningMethodRSAPSS string
  | SigningMethodECDSA string
  | SigningMethodEd25519
  | SigningMethodNone

fun Alg :: "SigningMethod \<Rightarrow> string" where
  "Alg (SigningMethodHMAC name) = name"
| "Alg (SigningMethodRSA name) = name"
| "Alg (SigningMethodRSAPSS name) = name"
| "Alg (SigningMethodECDSA name) = name"
| "Alg SigningMethodEd25519 = ''EdDSA''"
| "Alg SigningMethodNone = ''none''"

text \<open>The type assertion \<^verbatim>\<open>token.Method.(*jwt.SigningMethodHMAC)\<close>.\<close>

fun isSigningMethodHMAC :: "SigningMethod \<Rightarrow> bool" where
  "isSigningMethodHMAC (SigningMethodHMAC name) = True"
| "isSigningMethodHMAC m = False"

text \<open>What a key function hands to the library: the bytes of a shared secret, or a raw
  public key taken from a key set (its material is opaque here).\<close>

datatype Key =
    Bytes string
  | RSAPublicKey nat
  | ECDSAPublicKey nat
  | OtherKey nat

record Token =
  Method :: SigningMethod
  TokenHeader :: "string \<rightharpoonup> any"
  Claims :: "string \<rightharpoonup> any"
  SigningString :: string
  Signature :: string
  Valid :: bool

text \<open>
  \<^item> \<open>ParseUnverified\<close>: splits and decodes the token string; an error text, or the token
    with its method resolved from the \<^verbatim>\<open>alg\<close> header.
  \<^item> \<open>Verify m signingString signature key\<close>: \<open>None\<close> when the signature is good for
    method \<open>m\<close> under \<open>key\<close>, else the error text.
  \<^item> \<open>Validate claims\<close>: the time-based claim checks at the moment of the request.
  \<^item> \<open>FormatV\<close>: \<^verbatim>\<open>fmt\<close>'s rendering of a value under \<^verbatim>\<open>%v\<close>.
\<close>

record JWTLibrary =
  ParseUnverified :: "string \<Rightarrow> string + Token"
  Verify :: "SigningMethod \<Rightarrow> string \<Rightarrow> string \<Rightarrow> Key \<Rightarrow> string option"
  Validate :: "(string \<rightharpoonup> any) \<Rightarrow> string option"
  FormatV :: "any option \<Rightarrow> string"

type_synonym Keyfunc = "Token \<Rightarrow> string + Key"

text \<open>\<^verbatim>\<open>jwt.Parse(tokenString, keyFunc, options...)\<close>, after the library's
  \<^verbatim>\<open>Parser.ParseWithClaims\<close>: decode the token (the decoding of all three segments is
  counted to \<open>ParseUnverified\<close>); when \<^verbatim>\<open>WithValidMethods\<close> was given
  (\<open>validMethods\<close> is not \<open>None\<close>), reject a method whose name is not listed; ask the
  key function for the key; verify the signature with the token's method; validate the
  claims; mark the token valid. The first failure is returned as the error, under the
  library's wording; no statement below depends on that wording.\<close>

definition Parse :: "JWTLibrary \<Rightarrow> string list option \<Rightarrow> string \<Rightarrow> Keyfunc \<Rightarrow> string + Token" where
  "Parse lib validMethods tokenString keyFunc =
     (case ParseUnverified lib tokenString of
        Inl err \<Rightarrow> Inl err
      | Inr token \<Rightarrow>
          if (case validMethods of None \<Rightarrow> False | Some ms \<Rightarrow> Alg (Method token) \<notin> set ms)
          then Inl (''token signature is invalid: signing method '' @ Alg (Method token) @ '' is invalid'')
          else
            (case keyFunc token of
               Inl err \<Rightarrow> Inl (''token is unverifiable: error while executing keyfunc: '' @ err)
             | Inr key \<Rightarrow>
                 (case Verify lib (Method token) (SigningString token) (Signature token) key of
                    Some err \<Rightarrow> Inl (''token signature is invalid: '' @ err)
                  | None \<Rightarrow>
                      (case Validate lib (Claims token) of
                         Some err \<Rightarrow> Inl (''token has invalid claims: '' @ err)
                       | None \<Rightarrow> Inr (token\<lparr>Valid := True\<rparr>)))))"

section \<open>The authentication middleware (\<^verbatim>\<open>pkg/middleware/jwt.go\<close>)\<close>

definition userContextKey :: ctx_key where
  "userContextKey = contextKey ''userID''"

definition GetUserIDFromContext :: "Context \<Rightarrow> string \<times> bool" where
  "GetUserIDFromContext ctx =
     (case Value ctx userContextKey of
        Some (AnyString userID) \<Rightarrow> (userID, True)
      | _ \<Rightarrow> ([], False))"

definition ContextWithUserID :: "Context \<Rightarrow> string \<Rightarrow> Context" where
  "ContextWithUserID ctx userID = WithValue ctx userContextKey (AnyString userID)"

text \<open>The key function of the shared-secret middleware: the function literal passed to
  \<^verbatim>\<open>jwt.Parse\<close>, with the secret it captures as a parameter. It refuses every token
  whose method is not of the HMAC type and otherwise returns the secret's bytes.\<close>

definition hmacKeyFunc :: "JWTLibrary \<Rightarrow> string \<Rightarrow> Keyfunc" where
  "hmacKeyFunc lib jwtSecret token =
     (if \<not> isSigningMethodHMAC (Method token)
      then Inl (''unexpected signing method: '' @ FormatV lib (TokenHeader token ''alg''))
      else Inr (Bytes jwtSecret))"

text \<open>The first version of the middleware (the file that declares
  \<^verbatim>\<open>NewJWTAuthMiddleware\<close>). \<^verbatim>\<open>jwt.Parse\<close> always parses into \<^verbatim>\<open>MapClaims\<close>, so the
  type assertion on \<^verbatim>\<open>token.Claims\<close> holds and the test that remains is \<^verbatim>\<open>token.Valid\<close>.\<close>

definition NewJWTAuthMiddleware :: "JWTLibrary \<Rightarrow> string \<Rightarrow> Handler \<Rightarrow> Handler" where
  "NewJWTAuthMiddleware lib jwtSecret next = (\<lambda>w r.
     let authHeader = Get (Header r) ''Authorization'' in
     if authHeader = [] then
       WriteJSONError w StatusUnauthorized ''Unauthorized: Missing Authorization header''
     else
       (case CutPrefix authHeader ''Bearer '' of (tokenString, found) \<Rightarrow>
          if \<not> found then
            WriteJSONError w StatusUnauthorized ''Unauthorized: Invalid token format''
          else
            (case Parse lib None tokenString (hmacKeyFunc lib jwtSecret) of
               Inl err \<Rightarrow> WriteJSONError w StatusUnauthorized ''Unauthorized: Invalid token''
             | Inr token \<Rightarrow>
                 if Valid token then
                   (case Claims token ''sub'' of
                      Some (AnyString userID) \<Rightarrow>
                        if userID = [] then
                          WriteJSONError w StatusUnauthorized ''Unauthorized: Invalid user ID in token''
                        else
                          next w (r\<lparr>Ctx := WithValue (Ctx r) userContextKey (AnyString userID)\<rparr>)
                    | _ \<Rightarrow>
                        WriteJSONError w StatusUnauthorized ''Unauthorized: Invalid user ID in token'')
                 else
                   WriteJSONError w StatusUnauthorized ''Unauthorized: Invalid token claims'')))"

text \<open>The same handler under its later name in \<^verbatim>\<open>jwt.go\<close>.\<close>

definition NewLegacySharedSecretAuthMiddleware :: "JWTLibrary \<Rightarrow> string \<Rightarrow> Handler \<Rightarrow> Handler" where
  "NewLegacySharedSecretAuthMiddleware lib jwtSecret next = (\<lambda>w r.
     let authHeader = Get (Header r) ''Authorization'' in
     if authHeader = [] then
       WriteJSONError w StatusUnauthorized ''Unauthorized: Missing Authorization header''
     else
       (case CutPrefix authHeader ''Bearer '' of (tokenString, found) \<Rightarrow>
          if \<not> found then
            WriteJSONError w StatusUnauthorized ''Unauthorized: Invalid token format''
          else
            (case Parse lib None tokenString (hmacKeyFunc lib jwtSecret) of
               Inl err \<Rightarrow> WriteJSONError w StatusUnauthorized ''Unauthorized: Invalid token''
             | Inr token \<Rightarrow>
                 if Valid token then
                   (case Claims token ''sub'' of
                      Some (AnyString userID) \<Rightarrow>
                        if userID = [] then
                          WriteJSONError w StatusUnauthorized ''Unauthorized: Invalid user ID in token''
                        else
                          next w (r\<lparr>Ctx := WithValue (Ctx r) userContextKey (AnyString userID)\<rparr>)
                    | _ \<Rightarrow>
                        WriteJSONError w StatusUnauthorized ''Unauthorized: Invalid user ID in token'')
                 else
                   WriteJSONError w StatusUnauthorized ''Unauthorized: Invalid token claims'')))"

text \<open>The key-set cache (\<^verbatim>\<open>jwk.Cache\<close> of \<^verbatim>\<open>lestrrat-go/jwx\<close>, external): registering a
  source, the synchronous first fetch, and the lookup a request performs. A key of the set
  answers \<^verbatim>\<open>Raw\<close> with its raw public key or an error.\<close>

datatype JWK = JWK (Raw: "string + Key")

type_synonym KeySet = "string \<rightharpoonup> JWK"

record Cache =
  Register :: "string \<Rightarrow> string option"
  Refresh :: "string \<Rightarrow> string + KeySet"
  CacheGet :: "string \<Rightarrow> string + KeySet"

text \<open>The key function of the key-set middleware (\<^verbatim>\<open>keyFunc\<close> in the source), with
  the cache and the URL it captures as parameters: fetch the key set from the cache, read
  the token's \<^verbatim>\<open>kid\<close> header as a string, look the key up, return its raw form.\<close>

definition keyFunc :: "Cache \<Rightarrow> string \<Rightarrow> Keyfunc" where
  "keyFunc cache jwksURL token =
     (case CacheGet cache jwksURL of
        Inl err \<Rightarrow> Inl (''failed to get key set from cache: '' @ err)
      | Inr keySet \<Rightarrow>
          (case TokenHeader token ''kid'' of
             Some (AnyString keyID) \<Rightarrow>
               (case keySet keyID of
                  None \<Rightarrow> Inl (''key with ID '' @ [CHR 0x27] @ keyID @ [CHR 0x27] @ '' not found in JWKS'')
                | Some key \<Rightarrow>
                    (case Raw key of
                       Inl err \<Rightarrow> Inl (''failed to get raw public key: '' @ err)
                     | Inr rawKey \<Rightarrow> Inr rawKey))
           | _ \<Rightarrow> Inl (''token missing '' @ [CHR 0x27] @ ''kid'' @ [CHR 0x27] @ '' header'')))"

definition NewJWKSAuthMiddleware ::
    "JWTLibrary \<Rightarrow> Cache \<Rightarrow> string \<Rightarrow> string + (Handler \<Rightarrow> Handler)" where
  "NewJWKSAuthMiddleware lib cache jwksURL =
     (case Register cache jwksURL of
        Some err \<Rightarrow> Inl (''failed to register JWKS URL: '' @ err)
      | None \<Rightarrow>
     (case Refresh cache jwksURL of
        Inl err \<Rightarrow> Inl (''failed to perform initial JWKS fetch: '' @ err)
      | Inr _ \<Rightarrow>
     Inr (\<lambda>next w r.
       let authHeader = Get (Header r) ''Authorization'' in
       if authHeader = [] then
         WriteJSONError w StatusUnauthorized ''Unauthorized: Missing Authorization header''
       else
         (case CutPrefix authHeader ''Bearer '' of (tokenString, found) \<Rightarrow>
            if \<not> found then
              WriteJSONError w StatusUnauthorized ''Unauthorized: Invalid token format''
            else
              (case Parse lib (Some [''RS256'']) tokenString (keyFunc cache jwksURL) of
                 Inl err \<Rightarrow>
                   WriteJSONError w StatusUnauthorized (''Unauthorized: Invalid token ('' @ err @ '')'')
               | Inr token \<Rightarrow>
                   if Valid token then
                     (case Claims token ''sub'' of
                        Some (AnyString userID) \<Rightarrow>
                          if userID = [] then
                            WriteJSONError w StatusUnauthorized ''Unauthorized: Invalid user ID in token''
                          else
                            next w (r\<lparr>Ctx := WithValue (Ctx r) userContextKey (AnyString userID)\<rparr>)
                      | _ \<Rightarrow>
                          WriteJSONError w StatusUnauthorized ''Unauthorized: Invalid user ID in token'')
                   else
                     WriteJSONError w StatusUnauthorized ''Unauthorized: Invalid token claims'')))))"

section \<open>The base server (\<^verbatim>\<open>pkg/microservice/baseserver.go\<close>)\<close>

text \<open>The logger is the list of events written so far: level, fields, message.\<close>

datatype LogLevel = LevelInfo | LevelWarn | LevelError

type_synonym LogEvent = "LogLevel \<times> (string \<times> string) list \<times> string"

text \<open>The handlers that \<^verbatim>\<open>registerDefaultHandlers\<close> puts into the mux. The first two are
  methods bound to the server, so they read its state when a request arrives.\<close>

datatype MuxHandler = HealthzHandler | ReadyzHandler | MetricsHandler

text \<open>\<open>readyChan\<close> is \<open>None\<close> for a nil channel, else the identity of a channel whose
  state lives in a store shared with whoever registered it.\<close>

record BaseServer =
  Logger :: "LogEvent list"
  HTTPPort :: string
  httpServerAddr :: string
  mux :: "(string \<times> MuxHandler) list"
  actualAddr :: string
  readyChan :: "nat option"
  isReady :: bool

definition registerDefaultHandlers :: "BaseServer \<Rightarrow> BaseServer" where
  "registerDefaultHandlers s =
     s\<lparr>mux := mux s @ [(''/healthz'', HealthzHandler), (''/readyz'', ReadyzHandler),
                        (''/metrics'', MetricsHandler)]\<rparr>"

definition NewBaseServer :: "LogEvent list \<Rightarrow> string \<Rightarrow> BaseServer" where
  "NewBaseServer logger httpPort =
     (let listenAddr = (if httpPort = [] then ''8080'' else httpPort);
          listenAddr = (if \<not> HasPrefix listenAddr '':'' then '':'' @ listenAddr else listenAddr);
          s = \<lparr>Logger = logger, HTTPPort = listenAddr, httpServerAddr = listenAddr, mux = [],
               actualAddr = [], readyChan = None, isReady = False\<rparr>
      in registerDefaultHandlers s)"

definition SetReadyChannel :: "BaseServer \<Rightarrow> nat option \<Rightarrow> BaseServer" where
  "SetReadyChannel s ch = s\<lparr>readyChan := ch\<rparr>"

definition SetReady :: "BaseServer \<Rightarrow> bool \<Rightarrow> BaseServer" where
  "SetReady s ready =
     (let s' = s\<lparr>isReady := ready\<rparr> in
      if ready then s'\<lparr>Logger := Logger s' @ [(LevelInfo, [], ''Service has been marked as READY.'')]\<rparr>
      else s'\<lparr>Logger := Logger s' @ [(LevelWarn, [], ''Service has been marked as NOT READY.'')]\<rparr>)"

definition healthzHandler :: "BaseServer \<Rightarrow> Handler" where
  "healthzHandler s w r = Write (WriteHeader w StatusOK) ''OK''"

definition readyzHandler :: "BaseServer \<Rightarrow> Handler" where
  "readyzHandler s w r =
     (if isReady s then Write (WriteHeader w StatusOK) ''READY''
      else Write (WriteHeader w StatusServiceUnavailable) ''NOT READY'')"

text \<open>A request served through the server's mux. The registered patterns have no
  trailing slash, so each matches exactly its own path; \<open>promhttpHandler\<close> is the external
  metrics handler, and an unmatched path is answered by \<^verbatim>\<open>http.NotFound\<close>.\<close>

definition ServeHTTP :: "Handler \<Rightarrow> BaseServer \<Rightarrow> Handler" where
  "ServeHTTP promhttpHandler s w r =
     (case map_of (mux s) (URLPath r) of
        Some HealthzHandler \<Rightarrow> healthzHandler s w r
      | Some ReadyzHandler \<Rightarrow> readyzHandler s w r
      | Some MetricsHandler \<Rightarrow> promhttpHandler w r
      | None \<Rightarrow> Write (WriteHeader w 404) (''404 page not found'' @ [CHR 0x0A]))"

text \<open>The network as \<^verbatim>\<open>Start\<close> meets it: \<open>Listen addr\<close> is the error of
  \<^verbatim>\<open>net.Listen\<close> or the address the listener is bound to; \<open>ServeResult\<close> is the error
  that \<^verbatim>\<open>httpServer.Serve\<close> returns when it returns, \<open>None\<close> when it never does.\<close>

datatype ChanState = ChanOpen | ChanClosed

datatype ServeError = ErrServerClosed | ServeFailed string

record Net =
  Listen :: "string \<Rightarrow> string + string"
  ServeResult :: "ServeError option"

text \<open>How a call of \<^verbatim>\<open>Start\<close> ends: it returns nil or an error, it panics, or it
  stays blocked in \<^verbatim>\<open>Serve\<close>.\<close>

datatype StartOutcome = Returned "string option" | Panicked string | Blocked

definition Start ::
    "Net \<Rightarrow> (nat \<Rightarrow> ChanState) \<Rightarrow> BaseServer \<Rightarrow> BaseServer \<times> (nat \<Rightarrow> ChanState) \<times> StartOutcome" where
  "Start net chans s =
     (case Listen net (HTTPPort s) of
        Inl err \<Rightarrow>
          (s, chans, Returned (Some (''failed to listen on port '' @ HTTPPort s @ '': '' @ err)))
      | Inr addr \<Rightarrow>
          (let s1 = s\<lparr>actualAddr := addr\<rparr>;
               s2 = s1\<lparr>Logger := Logger s1 @
                      [(LevelInfo, [(''address'', actualAddr s1)], ''HTTP server starting to listen'')]\<rparr>
           in
           (case (case readyChan s2 of
                    None \<Rightarrow> Some chans
                  | Some ch \<Rightarrow> if chans ch = ChanClosed then None else Some (chans(ch := ChanClosed))) of
              None \<Rightarrow> (s2, chans, Panicked ''close of closed channel'')
            | Some chans' \<Rightarrow>
                (case ServeResult net of
                   None \<Rightarrow> (s2, chans', Blocked)
                 | Some ErrServerClosed \<Rightarrow>
                     (s2\<lparr>Logger := Logger s2 @ [(LevelInfo, [], ''HTTP server has stopped listening.'')]\<rparr>,
                      chans', Returned None)
                 | Some (ServeFailed err) \<Rightarrow>
                     (s2\<lparr>Logger := Logger s2 @ [(LevelError, [(''error'', err)], ''HTTP server failed'')]\<rparr>,
                      chans', Returned (Some err))))))"

section \<open>A test fixture\<close>

text \<open>The fixture of the repository's middleware test, carried over: a secret, a
  protected handler that reads the user ID from the context and answers 200 with it, and a
  small token library whose signatures are symbolic (a MAC names its secret, an RSA
  signature names its key pair). It is used only to evaluate the statements below at
  concrete requests.\<close>

definition testSecret :: string where
  "testSecret = ''my-test-secret''"

definition testHandler :: Handler where
  "testHandler w r =
     (case GetUserIDFromContext (Ctx r) of
        (userID, ok) \<Rightarrow>
          if ok then Write (WriteHeader w StatusOK) (''OK '' @ userID)
          else Write (WriteHeader w 500) ''userID should be in the context'')"

definition createTestToken :: "string \<Rightarrow> string \<Rightarrow> Token" where
  "createTestToken userID secret =
     \<lparr>Method = SigningMethodHMAC ''HS256'',
      TokenHeader = [''alg'' \<mapsto> AnyString ''HS256'', ''typ'' \<mapsto> AnyString ''JWT''],
      Claims = [''sub'' \<mapsto> AnyString userID, ''iat'' \<mapsto> AnyNumber 1700000000,
                ''exp'' \<mapsto> AnyNumber 1700003600],
      SigningString = ''header.claims'',
      Signature = ''mac:'' @ secret,
      Valid = False\<rparr>"

definition createTestTokenRS256 :: "any option \<Rightarrow> any option \<Rightarrow> nat \<Rightarrow> Token" where
  "createTestTokenRS256 kid sub keyPair =
     \<lparr>Method = SigningMethodRSA ''RS256'',
      TokenHeader = (\<lambda>k. if k = ''alg'' then Some (AnyString ''RS256'') else if k = ''kid'' then kid else None),
      Claims = (\<lambda>k. if k = ''sub'' then sub else if k = ''exp'' then Some (AnyNumber 1700003600) else None),
      SigningString = ''header.claims'',
      Signature = ''rsa:'' @ replicate keyPair (CHR ''i''),
      Valid = False\<rparr>"

definition testTokens :: "(string \<times> Token) list" where
  "testTokens =
     [(''good'', createTestToken ''user-123'' testSecret),
      (''other-secret'', createTestToken ''user-123'' ''a-different-secret''),
      (''empty-sub'', createTestToken [] testSecret),
      (''hs384'', (createTestToken ''user-123'' testSecret)\<lparr>Method := SigningMethodHMAC ''HS384''\<rparr>),
      (''alg-none'', (createTestToken ''user-123'' testSecret)\<lparr>Method := SigningMethodNone\<rparr>),
      (''rs-good'', createTestTokenRS256 (Some (AnyString ''key-1'')) (Some (AnyString ''user-123'')) 1),
      (''rs-no-sub'', createTestTokenRS256 (Some (AnyString ''key-1'')) None 1),
      (''rs-no-kid'', createTestTokenRS256 None (Some (AnyString ''user-123'')) 1),
      (''rs-unknown-kid'', createTestTokenRS256 (Some (AnyString ''key-9'')) (Some (AnyString ''user-123'')) 1),
      (''rs-forged'', createTestTokenRS256 (Some (AnyString ''key-1'')) (Some (AnyString ''user-123'')) 2)]"

definition testLibrary :: JWTLibrary where
  "testLibrary =
     \<lparr>ParseUnverified = (\<lambda>tokenString.
        case map_of testTokens tokenString of
          None \<Rightarrow> Inl ''token is malformed: token contains an invalid number of segments''
        | Some token \<Rightarrow> Inr token),
      Verify = (\<lambda>m signingString signature key.
        case (m, key) of
          (SigningMethodHMAC _, Bytes secret) \<Rightarrow>
            if signature = ''mac:'' @ secret then None else Some ''signature is invalid''
        | (SigningMethodRSA _, RSAPublicKey keyPair) \<Rightarrow>
            if signature = ''rsa:'' @ replicate keyPair (CHR ''i'') then None
            else Some ''crypto/rsa: verification error''
        | _ \<Rightarrow> Some ''key is of invalid type''),
      Validate = (\<lambda>claims. None),
      FormatV = (\<lambda>v. case v of Some (AnyString s) \<Rightarrow> s | _ \<Rightarrow> ''<nil>'')\<rparr>"

definition testJWKSURL :: string where
  "testJWKSURL = ''https://identity.example/.well-known/jwks.json''"

definition testKeySet :: KeySet where
  "testKeySet = [''key-1'' \<mapsto> JWK (Inr (RSAPublicKey 1))]"

definition testCache :: Cache where
  "testCache =
     \<lparr>Register = (\<lambda>url. None),
      Refresh = (\<lambda>url. Inr testKeySet),
      CacheGet = (\<lambda>url. Inr testKeySet)\<rparr>"

definition testRequest :: "string list option \<Rightarrow> Request" where
  "testRequest authorization =
     \<lparr>URLPath = ''/'', Header = (\<lambda>k. if k = ''Authorization'' then authorization else None),
      Ctx = Background\<rparr>"

definition testNet :: "bool \<Rightarrow> Net" where
  "testNet portFree =
     \<lparr>Listen = (\<lambda>addr. if portFree then Inr (''[::]'' @ addr)
                        else Inl ''listen tcp: address already in use''),
      ServeResult = None\<rparr>"

text \<open>A server on port 8080 with ready channel number 0 registered.\<close>

definition testServer :: BaseServer where
  "testServer = SetReadyChannel (NewBaseServer [] ''8080'') (Some 0)"

text \<open>The key-set middleware of the fixture; its construction succeeds (see
  \<open>testJWKSMiddleware_constructed\<close>).\<close>

definition testJWKSMiddleware :: "Handler \<Rightarrow> Handler" where
  "testJWKSMiddleware =
     (case NewJWKSAuthMiddleware testLibrary testCache testJWKSURL of
        Inr mw \<Rightarrow> mw
      | Inl err \<Rightarrow> (\<lambda>next w r. w))"

section \<open>Basic facts\<close>

lemma WriteJSONError_NewRecorder:
  "WriteJSONError NewRecorder statusCode message =
     \<lparr>Code = Some statusCode,
      Body = ''{'' @ [CHR 0x22] @ ''error'' @ [CHR 0x22] @ '':'' @ [CHR 0x22] @ message @ [CHR 0x22] @ ''}''\<rparr>"
  by (simp add: WriteJSONError_def Write_def WriteHeader_def NewRecorder_def)

text \<open>The two shared-secret constructors are the same function.\<close>

lemma NewJWT_eq_Legacy:
  "NewJWTAuthMiddleware = NewLegacySharedSecretAuthMiddleware"
  by (intro ext) (simp add: NewJWTAuthMiddleware_def NewLegacySharedSecretAuthMiddleware_def)

lemma testJWKSMiddleware_constructed:
  "NewJWKSAuthMiddleware testLibrary testCache testJWKSURL = Inr testJWKSMiddleware"
  by (simp add: testJWKSMiddleware_def NewJWKSAuthMiddleware_def testCache_def)

text \<open>The two early exits of the key-set handler, before any token is parsed.\<close>

lemma JWKS_handler_cases:
  assumes "NewJWKSAuthMiddleware lib cache jwksURL = Inr mw"
  shows "Get (Header r) ''Authorization'' = [] \<Longrightarrow>
           mw next w r = WriteJSONError w StatusUnauthorized ''Unauthorized: Missing Authorization header''"
    and "Get (Header r) ''Authorization'' \<noteq> [] \<Longrightarrow> \<not> prefix ''Bearer '' (Get (Header r) ''Authorization'') \<Longrightarrow>
           mw next w r = WriteJSONError w StatusUnauthorized ''Unauthorized: Invalid token format''"
  using assms
  by (auto simp add: NewJWKSAuthMiddleware_def CutPrefix_def Let_def split: option.splits sum.splits)

text \<open>What each handler does with a request that carries \<^verbatim>\<open>Bearer <token>\<close>: the
  outcome of \<open>Parse\<close> decides.\<close>

lemma CutPrefix_Bearer:
  "CutPrefix (''Bearer '' @ tokenString) ''Bearer '' = (tokenString, True)"
  by (simp add: CutPrefix_def)

lemma shared_secret_bearer:
  assumes "Get (Header r) ''Authorization'' = ''Bearer '' @ tokenString"
  shows "NewLegacySharedSecretAuthMiddleware lib jwtSecret next w r =
     (case Parse lib None tokenString (hmacKeyFunc lib jwtSecret) of
        Inl err \<Rightarrow> WriteJSONError w StatusUnauthorized ''Unauthorized: Invalid token''
      | Inr token \<Rightarrow>
          if Valid token then
            (case Claims token ''sub'' of
               Some (AnyString userID) \<Rightarrow>
                 if userID = [] then
                   WriteJSONError w StatusUnauthorized ''Unauthorized: Invalid user ID in token''
                 else next w (r\<lparr>Ctx := WithValue (Ctx r) userContextKey (AnyString userID)\<rparr>)
             | _ \<Rightarrow> WriteJSONError w StatusUnauthorized ''Unauthorized: Invalid user ID in token'')
          else WriteJSONError w StatusUnauthorized ''Unauthorized: Invalid token claims'')"
  unfolding NewLegacySharedSecretAuthMiddleware_def Let_def assms CutPrefix_Bearer
  by simp

lemma key_set_bearer:
  assumes "NewJWKSAuthMiddleware lib cache jwksURL = Inr mw"
    and "Get (Header r) ''Authorization'' = ''Bearer '' @ tokenString"
  shows "mw next w r =
     (case Parse lib (Some [''RS256'']) tokenString (keyFunc cache jwksURL) of
        Inl err \<Rightarrow> WriteJSONError w StatusUnauthorized (''Unauthorized: Invalid token ('' @ err @ '')'')
      | Inr token \<Rightarrow>
          if Valid token then
            (case Claims token ''sub'' of
               Some (AnyString userID) \<Rightarrow>
                 if userID = [] then
                   WriteJSONError w StatusUnauthorized ''Unauthorized: Invalid user ID in token''
                 else next w (r\<lparr>Ctx := WithValue (Ctx r) userContextKey (AnyString userID)\<rparr>)
             | _ \<Rightarrow> WriteJSONError w StatusUnauthorized ''Unauthorized: Invalid user ID in token'')
          else WriteJSONError w StatusUnauthorized ''Unauthorized: Invalid token claims'')"
proof -
  from assms(1) obtain ks where c: "Register cache jwksURL = None" "Refresh cache jwksURL = Inr ks"
    by (auto simp add: NewJWKSAuthMiddleware_def split: option.splits sum.splits)
  from assms(1) have "mw next w r = projr (NewJWKSAuthMiddleware lib cache jwksURL) next w r"
    by simp
  then show ?thesis
    unfolding NewJWKSAuthMiddleware_def c
    by (simp add: Let_def assms(2) CutPrefix_def)
qed

text \<open>When \<open>Parse\<close> fails under the shared-secret key function, and under the key-set
  key function.\<close>

lemma Parse_shared_secret_rejects:
  assumes "ParseUnverified lib tokenString = Inr token"
    and "\<not> isSigningMethodHMAC (Method token)
         \<or> Verify lib (Method token) (SigningString token) (Signature token) (Bytes jwtSecret) \<noteq> None"
  shows "\<exists>e. Parse lib None tokenString (hmacKeyFunc lib jwtSecret) = Inl e"
  using assms by (auto simp add: Parse_def hmacKeyFunc_def split: option.splits)

lemma shared_secret_rejects:
  assumes "Get (Header r) ''Authorization'' = ''Bearer '' @ tokenString"
    and "Parse lib None tokenString (hmacKeyFunc lib jwtSecret) = Inl e"
    and "mw = NewJWTAuthMiddleware lib jwtSecret \<or> mw = NewLegacySharedSecretAuthMiddleware lib jwtSecret"
  shows "mw next w r = WriteJSONError w StatusUnauthorized ''Unauthorized: Invalid token''"
  using assms(2,3) by (auto simp add: NewJWT_eq_Legacy shared_secret_bearer [OF assms(1)])

lemma Parse_key_set_rejects:
  assumes "ParseUnverified lib tokenString = Inr token"
    and "Alg (Method token) \<noteq> ''RS256''
       \<or> (\<forall>keyID. TokenHeader token ''kid'' \<noteq> Some (AnyString keyID))
       \<or> (\<exists>keyID keySet. TokenHeader token ''kid'' = Some (AnyString keyID)
             \<and> CacheGet cache jwksURL = Inr keySet \<and> keySet keyID = None)
       \<or> (\<exists>keyID keySet key rawKey. TokenHeader token ''kid'' = Some (AnyString keyID)
             \<and> CacheGet cache jwksURL = Inr keySet \<and> keySet keyID = Some key \<and> Raw key = Inr rawKey
             \<and> Verify lib (Method token) (SigningString token) (Signature token) rawKey \<noteq> None)"
  shows "\<exists>e. Parse lib (Some [''RS256'']) tokenString (keyFunc cache jwksURL) = Inl e"
  using assms
  by (auto simp add: Parse_def keyFunc_def split: option.splits sum.splits any.splits)

text \<open>Evaluation of the fixture.\<close>

lemma testLibrary_simps:
  "ParseUnverified testLibrary tokenString =
     (case map_of testTokens tokenString of
          None \<Rightarrow> Inl ''token is malformed: token contains an invalid number of segments''
        | Some token \<Rightarrow> Inr token)"
  "Validate testLibrary claims = None"
  "Verify testLibrary (SigningMethodHMAC a) signingString signature (Bytes secret) =
     (if signature = ''mac:'' @ secret then None else Some ''signature is invalid'')"
  "Verify testLibrary (SigningMethodRSA a) signingString signature (RSAPublicKey keyPair) =
     (if signature = ''rsa:'' @ replicate keyPair (CHR ''i'') then None
      else Some ''crypto/rsa: verification error'')"
  by (simp_all add: testLibrary_def)

lemma testRequest_simps:
  "Get (Header (testRequest (Some [v]))) ''Authorization'' = v"
  "Header (testRequest a) ''Authorization'' = a"
  "Ctx (testRequest a) = Background"
  by (simp_all add: testRequest_def Get_def)

lemmas fixture_simps =
  testLibrary_simps testRequest_simps testTokens_def createTestToken_def createTestTokenRS256_def
  testHandler_def testSecret_def testCache_def testKeySet_def
  GetUserIDFromContext_def userContextKey_def Write_def WriteHeader_def
  NewRecorder_def StatusOK_def StatusUnauthorized_def WriteJSONError_def numeral_2_eq_2

section \<open>Extraction of the bearer token\<close>

text \<open>Claim C4. For every request with no Authorization header, each of the three
  middlewares answers through \<open>WriteJSONError\<close> with status 401 and the message
  \<^verbatim>\<open>Unauthorized: Missing Authorization header\<close>, whatever the downstream handler is, so
  the downstream handler does not run; on a fresh response the status is 401 and the body
  is exactly \<^verbatim>\<open>{"error":"Unauthorized: Missing Authorization header"}\<close>.\<close>

theorem missing_authorization_header:
  assumes "Header r ''Authorization'' = None"
    and "mw = NewJWTAuthMiddleware lib jwtSecret
         \<or> mw = NewLegacySharedSecretAuthMiddleware lib jwtSecret
         \<or> NewJWKSAuthMiddleware lib cache jwksURL = Inr mw"
  shows \<open>mw next w r = WriteJSONError w StatusUnauthorized ''Unauthorized: Missing Authorization header''
       \<and> mw next NewRecorder r =
           \<lparr>Code = Some 401, Body = ''{"error":"Unauthorized: Missing Authorization header"}''\<rparr>\<close>
proof -
  have g: "Get (Header r) ''Authorization'' = []"
    using assms(1) by (simp add: Get_def)
  have "mw next w' r = WriteJSONError w' StatusUnauthorized ''Unauthorized: Missing Authorization header''" for w'
    using assms(2) g JWKS_handler_cases(1)[of lib cache jwksURL mw r "next" w']
    by (auto simp add: NewJWTAuthMiddleware_def NewLegacySharedSecretAuthMiddleware_def)
  then show ?thesis
    by (simp add: WriteJSONError_NewRecorder StatusUnauthorized_def)
qed

text \<open>The request of the test \<^verbatim>\<open>Failure - No Auth Header\<close>, through each middleware.\<close>

theorem missing_authorization_header_witness:
  \<open>Header (testRequest None) ''Authorization'' = None
   \<and> NewJWTAuthMiddleware testLibrary testSecret testHandler NewRecorder (testRequest None) =
       \<lparr>Code = Some 401, Body = ''{"error":"Unauthorized: Missing Authorization header"}''\<rparr>
   \<and> NewLegacySharedSecretAuthMiddleware testLibrary testSecret testHandler NewRecorder (testRequest None) =
       \<lparr>Code = Some 401, Body = ''{"error":"Unauthorized: Missing Authorization header"}''\<rparr>
   \<and> NewJWKSAuthMiddleware testLibrary testCache testJWKSURL = Inr testJWKSMiddleware
   \<and> testJWKSMiddleware testHandler NewRecorder (testRequest None) =
       \<lparr>Code = Some 401, Body = ''{"error":"Unauthorized: Missing Authorization header"}''\<rparr>\<close>
proof -
  have h: "Header (testRequest None) ''Authorization'' = None"
    by (simp add: testRequest_def)
  note t = missing_authorization_header [OF h]
  show ?thesis
    using h testJWKSMiddleware_constructed
      t [of "NewJWTAuthMiddleware testLibrary testSecret" testLibrary testSecret testCache testJWKSURL testHandler NewRecorder]
      t [of "NewLegacySharedSecretAuthMiddleware testLibrary testSecret" testLibrary testSecret testCache testJWKSURL testHandler NewRecorder]
      t [of testJWKSMiddleware testLibrary testSecret testCache testJWKSURL testHandler NewRecorder]
    by (simp add: WriteJSONError_NewRecorder StatusUnauthorized_def)
qed

text \<open>Claim C5, as amended. For every request whose Authorization value (as
  \<^verbatim>\<open>Header.Get\<close> returns it) is non-empty and does not start with the exact,
  case-sensitive prefix \<^verbatim>\<open>Bearer \<close> (with its one space), each of the three middlewares
  answers with status 401 and the body \<^verbatim>\<open>{"error":"Unauthorized: Invalid token format"}\<close>,
  whatever the downstream handler is; that response differs from the one for a missing
  header. A header that is present with an empty value is outside this statement: the
  handler's first test is on the empty string, so such a request is answered as if the
  header were missing.\<close>

theorem malformed_authorization_header:
  assumes nonempty: "Get (Header r) ''Authorization'' \<noteq> []"
    and noprefix: "\<not> prefix ''Bearer '' (Get (Header r) ''Authorization'')"
    and any_mw: "mw = NewJWTAuthMiddleware lib jwtSecret
         \<or> mw = NewLegacySharedSecretAuthMiddleware lib jwtSecret
         \<or> NewJWKSAuthMiddleware lib cache jwksURL = Inr mw"
  shows \<open>mw next w r = WriteJSONError w StatusUnauthorized ''Unauthorized: Invalid token format''
       \<and> mw next NewRecorder r =
           \<lparr>Code = Some 401, Body = ''{"error":"Unauthorized: Invalid token format"}''\<rparr>
       \<and> mw next NewRecorder r \<noteq>
           \<lparr>Code = Some 401, Body = ''{"error":"Unauthorized: Missing Authorization header"}''\<rparr>\<close>
proof -
  have "mw next w' r = WriteJSONError w' StatusUnauthorized ''Unauthorized: Invalid token format''" for w'
    using any_mw nonempty noprefix JWKS_handler_cases(2)[of lib cache jwksURL mw r "next" w']
    by (auto simp add: NewJWTAuthMiddleware_def NewLegacySharedSecretAuthMiddleware_def CutPrefix_def)
  then show ?thesis
    by (simp add: WriteJSONError_NewRecorder StatusUnauthorized_def)
qed

text \<open>The request of the test \<^verbatim>\<open>Failure - Invalid Token Format\<close>, then a lower-case
  prefix, a leading space, and the prefix without its space.\<close>

theorem malformed_authorization_header_witness:
  \<open>NewJWTAuthMiddleware testLibrary testSecret testHandler NewRecorder (testRequest (Some [''invalid-format''])) =
       \<lparr>Code = Some 401, Body = ''{"error":"Unauthorized: Invalid token format"}''\<rparr>
   \<and> NewLegacySharedSecretAuthMiddleware testLibrary testSecret testHandler NewRecorder
        (testRequest (Some [''bearer good''])) =
       \<lparr>Code = Some 401, Body = ''{"error":"Unauthorized: Invalid token format"}''\<rparr>
   \<and> testJWKSMiddleware testHandler NewRecorder (testRequest (Some ['' Bearer rs-good''])) =
       \<lparr>Code = Some 401, Body = ''{"error":"Unauthorized: Invalid token format"}''\<rparr>
   \<and> testJWKSMiddleware testHandler NewRecorder (testRequest (Some [''Bearer''])) =
       \<lparr>Code = Some 401, Body = ''{"error":"Unauthorized: Invalid token format"}''\<rparr>\<close>
proof -
  note t = malformed_authorization_header [where lib = testLibrary and jwtSecret = testSecret
      and cache = testCache and jwksURL = testJWKSURL and ?next = testHandler and w = NewRecorder]
  show ?thesis
    using testJWKSMiddleware_constructed
      t [where r = "testRequest (Some [''invalid-format''])" and mw = "NewJWTAuthMiddleware testLibrary testSecret"]
      t [where r = "testRequest (Some [''bearer good''])" and mw = "NewLegacySharedSecretAuthMiddleware testLibrary testSecret"]
      t [where r = "testRequest (Some ['' Bearer rs-good''])" and mw = testJWKSMiddleware]
      t [where r = "testRequest (Some [''Bearer''])" and mw = testJWKSMiddleware]
    by (simp add: testRequest_simps WriteJSONError_NewRecorder StatusUnauthorized_def)
qed

text \<open>The statement without the amendment fails: a request whose Authorization header is
  present with the empty value does not start with \<^verbatim>\<open>Bearer \<close>, and is answered with the
  missing-header body, not with the invalid-format body.\<close>

theorem empty_authorization_header_counterexample:
  \<open>Header (testRequest (Some [[]])) ''Authorization'' = Some [[]]
   \<and> \<not> prefix ''Bearer '' (Get (Header (testRequest (Some [[]]))) ''Authorization'')
   \<and> NewJWTAuthMiddleware testLibrary testSecret testHandler NewRecorder (testRequest (Some [[]])) =
       \<lparr>Code = Some 401, Body = ''{"error":"Unauthorized: Missing Authorization header"}''\<rparr>
   \<and> NewLegacySharedSecretAuthMiddleware testLibrary testSecret testHandler NewRecorder (testRequest (Some [[]])) =
       \<lparr>Code = Some 401, Body = ''{"error":"Unauthorized: Missing Authorization header"}''\<rparr>
   \<and> testJWKSMiddleware testHandler NewRecorder (testRequest (Some [[]])) =
       \<lparr>Code = Some 401, Body = ''{"error":"Unauthorized: Missing Authorization header"}''\<rparr>
   \<and> Body (NewLegacySharedSecretAuthMiddleware testLibrary testSecret testHandler NewRecorder (testRequest (Some [[]])))
       \<noteq> ''{"error":"Unauthorized: Invalid token format"}''\<close>
proof -
  have g: "Get (Header (testRequest (Some [[]]))) ''Authorization'' = []"
    by (simp add: testRequest_simps)
  show ?thesis
    using g JWKS_handler_cases(1)[OF testJWKSMiddleware_constructed g]
    by (simp add: NewJWTAuthMiddleware_def NewLegacySharedSecretAuthMiddleware_def testRequest_simps
        WriteJSONError_NewRecorder StatusUnauthorized_def)
qed

section \<open>Accepted tokens\<close>

text \<open>Claim C1. Take a request with \<^verbatim>\<open>Authorization: Bearer <token>\<close> whose token the
  library decodes, whose time-based claims it accepts, and whose signature it accepts under
  the configured key: for the shared-secret middlewares an HMAC-method token verified with
  the bytes of the configured secret; for the key-set middleware an RS256 token whose
  \<^verbatim>\<open>kid\<close> names a key of the cached set, verified with that key. If the \<^verbatim>\<open>sub\<close> claim
  is a non-empty string, the middleware calls the downstream handler on the request whose
  context carries exactly that string as the user ID. If \<^verbatim>\<open>sub\<close> is absent, not a string
  or empty, the answer is 401 with the body
  \<^verbatim>\<open>{"error":"Unauthorized: Invalid user ID in token"}\<close> whatever the downstream handler
  is, so the downstream handler does not run.\<close>

theorem valid_token_attaches_subject:
  assumes bearer: "Get (Header r) ''Authorization'' = ''Bearer '' @ tokenString"
    and decoded: "ParseUnverified lib tokenString = Inr token"
    and unexpired: "Validate lib (Claims token) = None"
    and signed:
      "(mw = NewJWTAuthMiddleware lib jwtSecret \<or> mw = NewLegacySharedSecretAuthMiddleware lib jwtSecret)
         \<and> isSigningMethodHMAC (Method token)
         \<and> Verify lib (Method token) (SigningString token) (Signature token) (Bytes jwtSecret) = None
       \<or> NewJWKSAuthMiddleware lib cache jwksURL = Inr mw
         \<and> Alg (Method token) = ''RS256''
         \<and> CacheGet cache jwksURL = Inr keySet \<and> TokenHeader token ''kid'' = Some (AnyString keyID)
         \<and> keySet keyID = Some key \<and> Raw key = Inr rawKey
         \<and> Verify lib (Method token) (SigningString token) (Signature token) rawKey = None"
  shows \<open>(Claims token ''sub'' = Some (AnyString userID) \<and> userID \<noteq> [] \<longrightarrow>
            mw next w r = next w (r\<lparr>Ctx := WithValue (Ctx r) userContextKey (AnyString userID)\<rparr>)
            \<and> GetUserIDFromContext (Ctx (r\<lparr>Ctx := WithValue (Ctx r) userContextKey (AnyString userID)\<rparr>))
                = (userID, True))
       \<and> ((\<forall>u. Claims token ''sub'' = Some (AnyString u) \<longrightarrow> u = []) \<longrightarrow>
            mw next w r = WriteJSONError w StatusUnauthorized ''Unauthorized: Invalid user ID in token''
            \<and> mw next NewRecorder r =
                \<lparr>Code = Some 401, Body = ''{"error":"Unauthorized: Invalid user ID in token"}''\<rparr>)\<close>
proof -
  have handler: "mw next w' r =
      (case Claims token ''sub'' of
         Some (AnyString userID) \<Rightarrow>
           if userID = [] then
             WriteJSONError w' StatusUnauthorized ''Unauthorized: Invalid user ID in token''
           else next w' (r\<lparr>Ctx := WithValue (Ctx r) userContextKey (AnyString userID)\<rparr>)
       | _ \<Rightarrow> WriteJSONError w' StatusUnauthorized ''Unauthorized: Invalid user ID in token'')" for w'
  proof -
    from signed consider
      (shared) "mw = NewLegacySharedSecretAuthMiddleware lib jwtSecret"
        "isSigningMethodHMAC (Method token)"
        "Verify lib (Method token) (SigningString token) (Signature token) (Bytes jwtSecret) = None"
    | (keyset) "NewJWKSAuthMiddleware lib cache jwksURL = Inr mw"
        "Alg (Method token) = ''RS256''"
        "CacheGet cache jwksURL = Inr keySet" "TokenHeader token ''kid'' = Some (AnyString keyID)"
        "keySet keyID = Some key" "Raw key = Inr rawKey"
        "Verify lib (Method token) (SigningString token) (Signature token) rawKey = None"
      by (auto simp add: NewJWT_eq_Legacy)
    then show ?thesis
    proof cases
      case shared
      have "Parse lib None tokenString (hmacKeyFunc lib jwtSecret) = Inr (token\<lparr>Valid := True\<rparr>)"
        using decoded unexpired shared(2,3) by (simp add: Parse_def hmacKeyFunc_def)
      then show ?thesis
        by (simp add: shared(1) shared_secret_bearer [OF bearer])
    next
      case keyset
      have "Parse lib (Some [''RS256'']) tokenString (keyFunc cache jwksURL) = Inr (token\<lparr>Valid := True\<rparr>)"
        using decoded unexpired keyset(2-7) by (simp add: Parse_def keyFunc_def)
      then show ?thesis
        by (simp add: keyset(1) key_set_bearer [OF keyset(1) bearer])
    qed
  qed
  have accepted: "mw next w r = next w (r\<lparr>Ctx := WithValue (Ctx r) userContextKey (AnyString userID)\<rparr>)"
    if "Claims token ''sub'' = Some (AnyString userID)" "userID \<noteq> []"
    using that by (simp add: handler)
  have rejected: "mw next w' r = WriteJSONError w' StatusUnauthorized ''Unauthorized: Invalid user ID in token''"
    if "\<forall>u. Claims token ''sub'' = Some (AnyString u) \<longrightarrow> u = []" for w'
    using that by (auto simp add: handler split: option.splits any.splits)
  show ?thesis
    using accepted rejected [of w] rejected [of NewRecorder]
    by (simp add: GetUserIDFromContext_def WriteJSONError_NewRecorder StatusUnauthorized_def)
qed

text \<open>The token of the test \<^verbatim>\<open>Success - Valid Token\<close> and its RS256 counterpart reach
  the protected handler with the user ID; a token with an empty subject and one without a
  subject are refused.\<close>

theorem valid_token_attaches_subject_witness:
  \<open>NewLegacySharedSecretAuthMiddleware testLibrary testSecret testHandler NewRecorder
       (testRequest (Some [''Bearer good''])) = \<lparr>Code = Some 200, Body = ''OK user-123''\<rparr>
   \<and> testJWKSMiddleware testHandler NewRecorder
       (testRequest (Some [''Bearer rs-good''])) = \<lparr>Code = Some 200, Body = ''OK user-123''\<rparr>
   \<and> NewJWTAuthMiddleware testLibrary testSecret testHandler NewRecorder
       (testRequest (Some [''Bearer empty-sub''])) =
         \<lparr>Code = Some 401, Body = ''{"error":"Unauthorized: Invalid user ID in token"}''\<rparr>
   \<and> testJWKSMiddleware testHandler NewRecorder
       (testRequest (Some [''Bearer rs-no-sub''])) =
         \<lparr>Code = Some 401, Body = ''{"error":"Unauthorized: Invalid user ID in token"}''\<rparr>\<close>
proof -
  note t = valid_token_attaches_subject [where lib = testLibrary and jwtSecret = testSecret
      and cache = testCache and jwksURL = testJWKSURL and keySet = testKeySet and keyID = "''key-1''"
      and key = "JWK (Inr (RSAPublicKey 1))" and rawKey = "RSAPublicKey 1" and w = NewRecorder
      and ?next = testHandler and userID = "''user-123''"]
  have 1: "NewLegacySharedSecretAuthMiddleware testLibrary testSecret testHandler NewRecorder
       (testRequest (Some [''Bearer good''])) = \<lparr>Code = Some 200, Body = ''OK user-123''\<rparr>"
    using t [where r = "testRequest (Some [''Bearer good''])" and tokenString = "''good''"
        and token = "createTestToken ''user-123'' testSecret"
        and mw = "NewLegacySharedSecretAuthMiddleware testLibrary testSecret"]
    by (simp add: fixture_simps)
  have 2: "testJWKSMiddleware testHandler NewRecorder
       (testRequest (Some [''Bearer rs-good''])) = \<lparr>Code = Some 200, Body = ''OK user-123''\<rparr>"
    using t [where r = "testRequest (Some [''Bearer rs-good''])" and tokenString = "''rs-good''"
        and token = "createTestTokenRS256 (Some (AnyString ''key-1'')) (Some (AnyString ''user-123'')) 1"
        and mw = testJWKSMiddleware] testJWKSMiddleware_constructed
    by (simp add: fixture_simps)
  have 3: \<open>NewJWTAuthMiddleware testLibrary testSecret testHandler NewRecorder
       (testRequest (Some [''Bearer empty-sub''])) =
         \<lparr>Code = Some 401, Body = ''{"error":"Unauthorized: Invalid user ID in token"}''\<rparr>\<close>
    using t [where r = "testRequest (Some [''Bearer empty-sub''])" and tokenString = "''empty-sub''"
        and token = "createTestToken [] testSecret"
        and mw = "NewJWTAuthMiddleware testLibrary testSecret"]
    by (simp add: fixture_simps)
  have 4: \<open>testJWKSMiddleware testHandler NewRecorder
       (testRequest (Some [''Bearer rs-no-sub''])) =
         \<lparr>Code = Some 401, Body = ''{"error":"Unauthorized: Invalid user ID in token"}''\<rparr>\<close>
    using t [where r = "testRequest (Some [''Bearer rs-no-sub''])" and tokenString = "''rs-no-sub''"
        and token = "createTestTokenRS256 (Some (AnyString ''key-1'')) None 1"
        and mw = testJWKSMiddleware] testJWKSMiddleware_constructed
    by (simp add: fixture_simps)
  show ?thesis using 1 2 3 4 by blast
qed

section \<open>Rejected tokens\<close>

text \<open>Claim C2, as amended. When verification fails, the status is 401 in every strategy.
  In the shared-secret strategy the body is the fixed
  \<^verbatim>\<open>{"error":"Unauthorized: Invalid token"}\<close>, the same for every error the library
  returns. In the key-set strategy the message is \<^verbatim>\<open>Unauthorized: Invalid token (<err>)\<close>,
  where \<^verbatim>\<open><err>\<close> is the text of the error that the library returned.\<close>

theorem verification_failure_response:
  assumes bearer: "Get (Header r) ''Authorization'' = ''Bearer '' @ tokenString"
  shows \<open>((mw = NewJWTAuthMiddleware lib jwtSecret \<or> mw = NewLegacySharedSecretAuthMiddleware lib jwtSecret)
           \<and> Parse lib None tokenString (hmacKeyFunc lib jwtSecret) = Inl err \<longrightarrow>
            mw next w r = WriteJSONError w StatusUnauthorized ''Unauthorized: Invalid token''
            \<and> mw next NewRecorder r =
                \<lparr>Code = Some 401, Body = ''{"error":"Unauthorized: Invalid token"}''\<rparr>)
       \<and> (NewJWKSAuthMiddleware lib cache jwksURL = Inr mw
           \<and> Parse lib (Some [''RS256'']) tokenString (keyFunc cache jwksURL) = Inl err \<longrightarrow>
            mw next w r =
              WriteJSONError w StatusUnauthorized (''Unauthorized: Invalid token ('' @ err @ '')'')
            \<and> mw next NewRecorder r =
                \<lparr>Code = Some 401, Body = ''{"error":"Unauthorized: Invalid token ('' @ err @ '')"}''\<rparr>)\<close>
proof -
  have shared: "mw next w' r = WriteJSONError w' StatusUnauthorized ''Unauthorized: Invalid token''"
    if "mw = NewJWTAuthMiddleware lib jwtSecret \<or> mw = NewLegacySharedSecretAuthMiddleware lib jwtSecret"
      "Parse lib None tokenString (hmacKeyFunc lib jwtSecret) = Inl err" for w'
    using shared_secret_rejects [OF bearer that(2) that(1)] .
  have keyset: "mw next w' r =
      WriteJSONError w' StatusUnauthorized (''Unauthorized: Invalid token ('' @ err @ '')'')"
    if "NewJWKSAuthMiddleware lib cache jwksURL = Inr mw"
      "Parse lib (Some [''RS256'']) tokenString (keyFunc cache jwksURL) = Inl err" for w'
    by (simp add: key_set_bearer [OF that(1) bearer] that(2))
  show ?thesis
    using shared [of w] shared [of NewRecorder] keyset [of w] keyset [of NewRecorder]
    by (simp add: WriteJSONError_NewRecorder StatusUnauthorized_def)
qed

text \<open>A token signed with another secret, and an RS256 token signed by another key pair.\<close>

theorem verification_failure_response_witness:
  \<open>Parse testLibrary None ''other-secret'' (hmacKeyFunc testLibrary testSecret) =
       Inl ''token signature is invalid: signature is invalid''
   \<and> NewLegacySharedSecretAuthMiddleware testLibrary testSecret testHandler NewRecorder
        (testRequest (Some [''Bearer other-secret''])) =
          \<lparr>Code = Some 401, Body = ''{"error":"Unauthorized: Invalid token"}''\<rparr>
   \<and> Parse testLibrary (Some [''RS256'']) ''rs-forged'' (keyFunc testCache testJWKSURL) =
       Inl ''token signature is invalid: crypto/rsa: verification error''
   \<and> testJWKSMiddleware testHandler NewRecorder (testRequest (Some [''Bearer rs-forged''])) =
          \<lparr>Code = Some 401,
           Body = ''{"error":"Unauthorized: Invalid token (token signature is invalid: crypto/rsa: verification error)"}''\<rparr>\<close>
proof -
  have p1: "Parse testLibrary None ''other-secret'' (hmacKeyFunc testLibrary testSecret) =
       Inl ''token signature is invalid: signature is invalid''"
    by (simp add: Parse_def hmacKeyFunc_def fixture_simps)
  have p2: "Parse testLibrary (Some [''RS256'']) ''rs-forged'' (keyFunc testCache testJWKSURL) =
       Inl ''token signature is invalid: crypto/rsa: verification error''"
    by (simp add: Parse_def keyFunc_def fixture_simps)
  have b1: "Get (Header (testRequest (Some [''Bearer other-secret'']))) ''Authorization'' = ''Bearer '' @ ''other-secret''"
    and b2: "Get (Header (testRequest (Some [''Bearer rs-forged'']))) ''Authorization'' = ''Bearer '' @ ''rs-forged''"
    by (simp_all add: testRequest_simps)
  show ?thesis
    using p1 p2 testJWKSMiddleware_constructed
      verification_failure_response [OF b1, where lib = testLibrary and jwtSecret = testSecret
        and cache = testCache and jwksURL = testJWKSURL
        and mw = "NewLegacySharedSecretAuthMiddleware testLibrary testSecret"
        and err = "''token signature is invalid: signature is invalid''"
        and ?next = testHandler and w = NewRecorder]
      verification_failure_response [OF b2, where lib = testLibrary and jwtSecret = testSecret
        and cache = testCache and jwksURL = testJWKSURL and mw = testJWKSMiddleware
        and err = "''token signature is invalid: crypto/rsa: verification error''"
        and ?next = testHandler and w = NewRecorder]
    by (simp add: WriteJSONError_NewRecorder StatusUnauthorized_def)
qed

text \<open>The statement without the amendment fails in the key-set strategy: the body of the
  401 response contains the error text that the library returned, and two different
  library errors give two different bodies.\<close>

theorem verification_error_in_body_counterexample:
  \<open>Parse testLibrary (Some [''RS256'']) ''not-a-token'' (keyFunc testCache testJWKSURL) =
       Inl ''token is malformed: token contains an invalid number of segments''
   \<and> testJWKSMiddleware testHandler NewRecorder (testRequest (Some [''Bearer not-a-token''])) =
       \<lparr>Code = Some 401,
        Body = ''{"error":"Unauthorized: Invalid token (token is malformed: token contains an invalid number of segments)"}''\<rparr>
   \<and> Contains (Body (testJWKSMiddleware testHandler NewRecorder (testRequest (Some [''Bearer not-a-token'']))))
        ''token is malformed: token contains an invalid number of segments''
   \<and> Body (testJWKSMiddleware testHandler NewRecorder (testRequest (Some [''Bearer not-a-token''])))
        \<noteq> Body (testJWKSMiddleware testHandler NewRecorder (testRequest (Some [''Bearer rs-forged''])))\<close>
proof -
  have p: "Parse testLibrary (Some [''RS256'']) ''not-a-token'' (keyFunc testCache testJWKSURL) =
       Inl ''token is malformed: token contains an invalid number of segments''"
    by (simp add: Parse_def fixture_simps)
  have p2: "Parse testLibrary (Some [''RS256'']) ''rs-forged'' (keyFunc testCache testJWKSURL) =
       Inl ''token signature is invalid: crypto/rsa: verification error''"
    by (simp add: Parse_def keyFunc_def fixture_simps)
  have r1: \<open>testJWKSMiddleware testHandler NewRecorder (testRequest (Some [''Bearer not-a-token''])) =
       \<lparr>Code = Some 401,
        Body = ''{"error":"Unauthorized: Invalid token (token is malformed: token contains an invalid number of segments)"}''\<rparr>\<close>
    by (simp add: key_set_bearer [OF testJWKSMiddleware_constructed] testRequest_simps p
        WriteJSONError_NewRecorder StatusUnauthorized_def)
  have r2: \<open>testJWKSMiddleware testHandler NewRecorder (testRequest (Some [''Bearer rs-forged''])) =
          \<lparr>Code = Some 401,
           Body = ''{"error":"Unauthorized: Invalid token (token signature is invalid: crypto/rsa: verification error)"}''\<rparr>\<close>
    by (simp add: key_set_bearer [OF testJWKSMiddleware_constructed] testRequest_simps p2
        WriteJSONError_NewRecorder StatusUnauthorized_def)
  show ?thesis
    unfolding r1 r2 using p by simp
qed

text \<open>Claim C3. For every token that the library decodes and whose signature it does not
  accept under the bytes of the configured secret (as for a token signed with a different
  secret), both shared-secret middlewares answer through \<open>WriteJSONError\<close> with status 401
  and the message \<^verbatim>\<open>Unauthorized: Invalid token\<close>, whatever the downstream handler is: the
  downstream handler does not run and no request with an identity is built. On a fresh
  response the body is exactly \<^verbatim>\<open>{"error":"Unauthorized: Invalid token"}\<close>.\<close>

theorem wrong_secret_rejected:
  assumes bearer: "Get (Header r) ''Authorization'' = ''Bearer '' @ tokenString"
    and decoded: "ParseUnverified lib tokenString = Inr token"
    and wrong: "Verify lib (Method token) (SigningString token) (Signature token) (Bytes jwtSecret) \<noteq> None"
    and shared: "mw = NewJWTAuthMiddleware lib jwtSecret \<or> mw = NewLegacySharedSecretAuthMiddleware lib jwtSecret"
  shows \<open>mw next w r = WriteJSONError w StatusUnauthorized ''Unauthorized: Invalid token''
       \<and> mw next NewRecorder r = \<lparr>Code = Some 401, Body = ''{"error":"Unauthorized: Invalid token"}''\<rparr>\<close>
proof -
  obtain e where "Parse lib None tokenString (hmacKeyFunc lib jwtSecret) = Inl e"
    using Parse_shared_secret_rejects [OF decoded] wrong by blast
  then have "mw next w' r = WriteJSONError w' StatusUnauthorized ''Unauthorized: Invalid token''" for w'
    using shared_secret_rejects [OF bearer _ shared] by blast
  then show ?thesis
    by (simp add: WriteJSONError_NewRecorder StatusUnauthorized_def)
qed

text \<open>The token of the test \<^verbatim>\<open>Failure - Invalid Signature\<close>.\<close>

theorem wrong_secret_rejected_witness:
  \<open>ParseUnverified testLibrary ''other-secret'' = Inr (createTestToken ''user-123'' ''a-different-secret'')
   \<and> Signature (createTestToken ''user-123'' ''a-different-secret'') \<noteq> Signature (createTestToken ''user-123'' testSecret)
   \<and> NewJWTAuthMiddleware testLibrary testSecret testHandler NewRecorder
        (testRequest (Some [''Bearer other-secret''])) =
          \<lparr>Code = Some 401, Body = ''{"error":"Unauthorized: Invalid token"}''\<rparr>
   \<and> NewLegacySharedSecretAuthMiddleware testLibrary testSecret testHandler NewRecorder
        (testRequest (Some [''Bearer other-secret''])) =
          \<lparr>Code = Some 401, Body = ''{"error":"Unauthorized: Invalid token"}''\<rparr>\<close>
proof -
  have b: "Get (Header (testRequest (Some [''Bearer other-secret'']))) ''Authorization'' = ''Bearer '' @ ''other-secret''"
    by (simp add: testRequest_simps)
  have d: "ParseUnverified testLibrary ''other-secret'' = Inr (createTestToken ''user-123'' ''a-different-secret'')"
    by (simp add: testLibrary_simps testTokens_def)
  have v: "Verify testLibrary (Method (createTestToken ''user-123'' ''a-different-secret''))
             (SigningString (createTestToken ''user-123'' ''a-different-secret''))
             (Signature (createTestToken ''user-123'' ''a-different-secret'')) (Bytes testSecret) \<noteq> None"
    by (simp add: testLibrary_simps createTestToken_def testSecret_def)
  note t = wrong_secret_rejected [OF b d v, where ?next = testHandler and w = NewRecorder]
  show ?thesis
    using d t [where mw = "NewJWTAuthMiddleware testLibrary testSecret"]
      t [where mw = "NewLegacySharedSecretAuthMiddleware testLibrary testSecret"]
    by (simp add: createTestToken_def testSecret_def WriteJSONError_NewRecorder StatusUnauthorized_def)
qed

text \<open>Claim C6. In the shared-secret strategy the key function returns a key exactly for
  the tokens whose method is of the HMAC type, whatever its algorithm name (the guard is
  membership in the family, not equality with one algorithm). A token that the library
  cannot decode (as when its algorithm is unknown), and a decoded token of any method
  outside the HMAC family, are answered with 401 and the body
  \<^verbatim>\<open>{"error":"Unauthorized: Invalid token"}\<close> for every verification function \<open>verify\<close>
  the library could have, so no verification path can let them through. A token of an HMAC
  method with any algorithm name, accepted by the library under the configured secret and
  carrying a non-empty subject, is passed on.\<close>

theorem algorithm_confusion_guard:
  assumes bearer: "Get (Header r) ''Authorization'' = ''Bearer '' @ tokenString"
    and shared: "mw = NewJWTAuthMiddleware (lib\<lparr>Verify := verify\<rparr>) jwtSecret
                 \<or> mw = NewLegacySharedSecretAuthMiddleware (lib\<lparr>Verify := verify\<rparr>) jwtSecret"
  shows \<open>((\<exists>key. hmacKeyFunc (lib\<lparr>Verify := verify\<rparr>) jwtSecret token = Inr key)
            \<longleftrightarrow> (\<exists>alg. Method token = SigningMethodHMAC alg))
       \<and> (ParseUnverified lib tokenString = Inl err
            \<or> ParseUnverified lib tokenString = Inr token \<and> (\<forall>alg. Method token \<noteq> SigningMethodHMAC alg) \<longrightarrow>
            mw next w r = WriteJSONError w StatusUnauthorized ''Unauthorized: Invalid token''
            \<and> mw next NewRecorder r =
                \<lparr>Code = Some 401, Body = ''{"error":"Unauthorized: Invalid token"}''\<rparr>)
       \<and> (ParseUnverified lib tokenString = Inr token
            \<and> Method token = SigningMethodHMAC alg
            \<and> verify (SigningMethodHMAC alg) (SigningString token) (Signature token) (Bytes jwtSecret) = None
            \<and> Validate lib (Claims token) = None
            \<and> Claims token ''sub'' = Some (AnyString userID) \<and> userID \<noteq> [] \<longrightarrow>
            mw next w r = next w (r\<lparr>Ctx := WithValue (Ctx r) userContextKey (AnyString userID)\<rparr>))\<close>
proof -
  let ?lib = "lib\<lparr>Verify := verify\<rparr>"
  have family: "isSigningMethodHMAC m \<longleftrightarrow> (\<exists>alg. m = SigningMethodHMAC alg)" for m
    by (cases m) simp_all
  have guard: "(\<exists>key. hmacKeyFunc ?lib jwtSecret token = Inr key) \<longleftrightarrow> (\<exists>alg. Method token = SigningMethodHMAC alg)"
    by (simp add: hmacKeyFunc_def family)
  have rejected: "mw next w' r = WriteJSONError w' StatusUnauthorized ''Unauthorized: Invalid token''"
    if "ParseUnverified lib tokenString = Inl err
        \<or> ParseUnverified lib tokenString = Inr token \<and> (\<forall>alg. Method token \<noteq> SigningMethodHMAC alg)" for w'
  proof -
    from that have "\<exists>e. Parse ?lib None tokenString (hmacKeyFunc ?lib jwtSecret) = Inl e"
    proof
      assume "ParseUnverified lib tokenString = Inl err"
      then show ?thesis
        by (simp add: Parse_def)
    next
      assume "ParseUnverified lib tokenString = Inr token \<and> (\<forall>alg. Method token \<noteq> SigningMethodHMAC alg)"
      then have "ParseUnverified ?lib tokenString = Inr token" "\<not> isSigningMethodHMAC (Method token)"
        by (simp_all add: family)
      then show ?thesis
        using Parse_shared_secret_rejects by blast
    qed
    then show ?thesis
      using shared_secret_rejects [OF bearer _ shared] by blast
  qed
  have accepted: "mw next w r = next w (r\<lparr>Ctx := WithValue (Ctx r) userContextKey (AnyString userID)\<rparr>)"
    if "ParseUnverified lib tokenString = Inr token"
      "Method token = SigningMethodHMAC alg"
      "verify (SigningMethodHMAC alg) (SigningString token) (Signature token) (Bytes jwtSecret) = None"
      "Validate lib (Claims token) = None"
      "Claims token ''sub'' = Some (AnyString userID)" "userID \<noteq> []"
  proof -
    have "Parse ?lib None tokenString (hmacKeyFunc ?lib jwtSecret) = Inr (token\<lparr>Valid := True\<rparr>)"
      using that(1,2,3,4) by (simp add: Parse_def hmacKeyFunc_def)
    moreover have "mw = NewLegacySharedSecretAuthMiddleware ?lib jwtSecret"
      using shared by (simp add: NewJWT_eq_Legacy)
    ultimately show ?thesis
      using that(5,6) by (simp add: shared_secret_bearer [OF bearer])
  qed
  show ?thesis
    using guard rejected [of w] rejected [of NewRecorder] accepted
    by (simp add: WriteJSONError_NewRecorder StatusUnauthorized_def)
qed

text \<open>A token with method \<^verbatim>\<open>none\<close> and a string that the library cannot decode are
  refused even by a library that accepts every signature; an HS384 token signed with the
  configured secret is accepted.\<close>

theorem algorithm_confusion_guard_witness:
  \<open>ParseUnverified testLibrary ''alg-none'' =
       Inr ((createTestToken ''user-123'' testSecret)\<lparr>Method := SigningMethodNone\<rparr>)
   \<and> NewLegacySharedSecretAuthMiddleware (testLibrary\<lparr>Verify := (\<lambda>m s sig k. None)\<rparr>) testSecret
        testHandler NewRecorder (testRequest (Some [''Bearer alg-none''])) =
          \<lparr>Code = Some 401, Body = ''{"error":"Unauthorized: Invalid token"}''\<rparr>
   \<and> ParseUnverified testLibrary ''not-a-token'' =
       Inl ''token is malformed: token contains an invalid number of segments''
   \<and> NewLegacySharedSecretAuthMiddleware (testLibrary\<lparr>Verify := (\<lambda>m s sig k. None)\<rparr>) testSecret
        testHandler NewRecorder (testRequest (Some [''Bearer not-a-token''])) =
          \<lparr>Code = Some 401, Body = ''{"error":"Unauthorized: Invalid token"}''\<rparr>
   \<and> ParseUnverified testLibrary ''hs384'' =
       Inr ((createTestToken ''user-123'' testSecret)\<lparr>Method := SigningMethodHMAC ''HS384''\<rparr>)
   \<and> NewJWTAuthMiddleware (testLibrary\<lparr>Verify := Verify testLibrary\<rparr>) testSecret
        testHandler NewRecorder (testRequest (Some [''Bearer hs384''])) =
          \<lparr>Code = Some 200, Body = ''OK user-123''\<rparr>\<close>
proof -
  have b1: "Get (Header (testRequest (Some [''Bearer alg-none'']))) ''Authorization'' = ''Bearer '' @ ''alg-none''"
    and b2: "Get (Header (testRequest (Some [''Bearer hs384'']))) ''Authorization'' = ''Bearer '' @ ''hs384''"
    and b3: "Get (Header (testRequest (Some [''Bearer not-a-token'']))) ''Authorization'' = ''Bearer '' @ ''not-a-token''"
    by (simp_all add: testRequest_simps)
  have d1: "ParseUnverified testLibrary ''alg-none'' =
       Inr ((createTestToken ''user-123'' testSecret)\<lparr>Method := SigningMethodNone\<rparr>)"
    and d2: "ParseUnverified testLibrary ''hs384'' =
       Inr ((createTestToken ''user-123'' testSecret)\<lparr>Method := SigningMethodHMAC ''HS384''\<rparr>)"
    and d3: "ParseUnverified testLibrary ''not-a-token'' =
       Inl ''token is malformed: token contains an invalid number of segments''"
    by (simp_all add: testLibrary_simps testTokens_def)
  have 1: \<open>NewLegacySharedSecretAuthMiddleware (testLibrary\<lparr>Verify := (\<lambda>m s sig k. None)\<rparr>) testSecret
        testHandler NewRecorder (testRequest (Some [''Bearer alg-none''])) =
          \<lparr>Code = Some 401, Body = ''{"error":"Unauthorized: Invalid token"}''\<rparr>\<close>
    using d1 algorithm_confusion_guard [OF b1, where lib = testLibrary and verify = "\<lambda>m s sig k. None"
        and jwtSecret = testSecret
        and mw = "NewLegacySharedSecretAuthMiddleware (testLibrary\<lparr>Verify := (\<lambda>m s sig k. None)\<rparr>) testSecret"
        and token = "(createTestToken ''user-123'' testSecret)\<lparr>Method := SigningMethodNone\<rparr>"
        and ?next = testHandler and w = NewRecorder]
    by (simp add: createTestToken_def WriteJSONError_NewRecorder StatusUnauthorized_def)
  have 3: \<open>NewLegacySharedSecretAuthMiddleware (testLibrary\<lparr>Verify := (\<lambda>m s sig k. None)\<rparr>) testSecret
        testHandler NewRecorder (testRequest (Some [''Bearer not-a-token''])) =
          \<lparr>Code = Some 401, Body = ''{"error":"Unauthorized: Invalid token"}''\<rparr>\<close>
    using d3 algorithm_confusion_guard [OF b3, where lib = testLibrary and verify = "\<lambda>m s sig k. None"
        and jwtSecret = testSecret
        and mw = "NewLegacySharedSecretAuthMiddleware (testLibrary\<lparr>Verify := (\<lambda>m s sig k. None)\<rparr>) testSecret"
        and err = "''token is malformed: token contains an invalid number of segments''"
        and ?next = testHandler and w = NewRecorder]
    by (simp add: WriteJSONError_NewRecorder StatusUnauthorized_def)
  have 2: \<open>NewJWTAuthMiddleware (testLibrary\<lparr>Verify := Verify testLibrary\<rparr>) testSecret
        testHandler NewRecorder (testRequest (Some [''Bearer hs384''])) =
          \<lparr>Code = Some 200, Body = ''OK user-123''\<rparr>\<close>
    using d2 algorithm_confusion_guard [OF b2, where lib = testLibrary and verify = "Verify testLibrary"
        and jwtSecret = testSecret
        and mw = "NewJWTAuthMiddleware (testLibrary\<lparr>Verify := Verify testLibrary\<rparr>) testSecret"
        and token = "(createTestToken ''user-123'' testSecret)\<lparr>Method := SigningMethodHMAC ''HS384''\<rparr>"
        and ?next = testHandler and w = NewRecorder and alg = "''HS384''" and userID = "''user-123''"]
    by (simp add: fixture_simps)
  show ?thesis using d1 d2 d3 1 2 3 by blast
qed

text \<open>Claim C7. In the key-set strategy, a decoded token is answered with status 401,
  through \<open>WriteJSONError\<close> and whatever the downstream handler is, in each of these cases:
  its method's algorithm name is not \<^verbatim>\<open>RS256\<close>; its header has no \<^verbatim>\<open>kid\<close> that is a
  string; the cached key set has no key for its \<^verbatim>\<open>kid\<close>; the library does not accept its
  signature under the key found.\<close>

theorem key_set_strategy_rejects:
  assumes constructed: "NewJWKSAuthMiddleware lib cache jwksURL = Inr mw"
    and bearer: "Get (Header r) ''Authorization'' = ''Bearer '' @ tokenString"
    and decoded: "ParseUnverified lib tokenString = Inr token"
    and bad: "Alg (Method token) \<noteq> ''RS256''
       \<or> (\<forall>keyID. TokenHeader token ''kid'' \<noteq> Some (AnyString keyID))
       \<or> (\<exists>keyID keySet. TokenHeader token ''kid'' = Some (AnyString keyID)
             \<and> CacheGet cache jwksURL = Inr keySet \<and> keySet keyID = None)
       \<or> (\<exists>keyID keySet key rawKey. TokenHeader token ''kid'' = Some (AnyString keyID)
             \<and> CacheGet cache jwksURL = Inr keySet \<and> keySet keyID = Some key \<and> Raw key = Inr rawKey
             \<and> Verify lib (Method token) (SigningString token) (Signature token) rawKey \<noteq> None)"
  shows "(\<exists>err. mw next w r =
            WriteJSONError w StatusUnauthorized (''Unauthorized: Invalid token ('' @ err @ '')''))
       \<and> Code (mw next NewRecorder r) = Some 401"
proof -
  obtain e where e: "Parse lib (Some [''RS256'']) tokenString (keyFunc cache jwksURL) = Inl e"
    using Parse_key_set_rejects [OF decoded bad] by blast
  have "mw next w' r = WriteJSONError w' StatusUnauthorized (''Unauthorized: Invalid token ('' @ e @ '')'')" for w'
    by (simp add: key_set_bearer [OF constructed bearer] e)
  then show ?thesis
    by (auto simp add: WriteJSONError_NewRecorder StatusUnauthorized_def)
qed

text \<open>An HS256 token, a token without \<^verbatim>\<open>kid\<close>, a token naming an unknown key, and a
  token signed by another key pair.\<close>

theorem key_set_strategy_rejects_witness:
  "Code (testJWKSMiddleware testHandler NewRecorder (testRequest (Some [''Bearer good'']))) = Some 401
   \<and> Code (testJWKSMiddleware testHandler NewRecorder (testRequest (Some [''Bearer rs-no-kid'']))) = Some 401
   \<and> Code (testJWKSMiddleware testHandler NewRecorder (testRequest (Some [''Bearer rs-unknown-kid'']))) = Some 401
   \<and> Code (testJWKSMiddleware testHandler NewRecorder (testRequest (Some [''Bearer rs-forged'']))) = Some 401
   \<and> Alg (Method (createTestToken ''user-123'' testSecret)) \<noteq> ''RS256''
   \<and> TokenHeader (createTestTokenRS256 None (Some (AnyString ''user-123'')) 1) ''kid'' = None
   \<and> testKeySet ''key-9'' = None
   \<and> Verify testLibrary (SigningMethodRSA ''RS256'') ''header.claims''
         (Signature (createTestTokenRS256 (Some (AnyString ''key-1'')) (Some (AnyString ''user-123'')) 2))
         (RSAPublicKey 1) \<noteq> None"
proof -
  note t = key_set_strategy_rejects [OF testJWKSMiddleware_constructed, where ?next = testHandler
      and w = NewRecorder]
  have 1: "Code (testJWKSMiddleware testHandler NewRecorder (testRequest (Some [''Bearer good'']))) = Some 401"
    using t [where r = "testRequest (Some [''Bearer good''])" and tokenString = "''good''"
        and token = "createTestToken ''user-123'' testSecret"]
    by (simp add: fixture_simps)
  have 2: "Code (testJWKSMiddleware testHandler NewRecorder (testRequest (Some [''Bearer rs-no-kid'']))) = Some 401"
    using t [where r = "testRequest (Some [''Bearer rs-no-kid''])" and tokenString = "''rs-no-kid''"
        and token = "createTestTokenRS256 None (Some (AnyString ''user-123'')) 1"]
    by (simp add: fixture_simps)
  have 3: "Code (testJWKSMiddleware testHandler NewRecorder (testRequest (Some [''Bearer rs-unknown-kid'']))) = Some 401"
    using t [where r = "testRequest (Some [''Bearer rs-unknown-kid''])" and tokenString = "''rs-unknown-kid''"
        and token = "createTestTokenRS256 (Some (AnyString ''key-9'')) (Some (AnyString ''user-123'')) 1"]
    by (simp add: fixture_simps)
  have 4: "Code (testJWKSMiddleware testHandler NewRecorder (testRequest (Some [''Bearer rs-forged'']))) = Some 401"
    using t [where r = "testRequest (Some [''Bearer rs-forged''])" and tokenString = "''rs-forged''"
        and token = "createTestTokenRS256 (Some (AnyString ''key-1'')) (Some (AnyString ''user-123'')) 2"]
    by (simp add: fixture_simps)
  have 5: "Alg (Method (createTestToken ''user-123'' testSecret)) \<noteq> ''RS256''
   \<and> TokenHeader (createTestTokenRS256 None (Some (AnyString ''user-123'')) 1) ''kid'' = None
   \<and> testKeySet ''key-9'' = None
   \<and> Verify testLibrary (SigningMethodRSA ''RS256'') ''header.claims''
         (Signature (createTestTokenRS256 (Some (AnyString ''key-1'')) (Some (AnyString ''user-123'')) 2))
         (RSAPublicKey 1) \<noteq> None"
    by (simp add: fixture_simps)
  show ?thesis using 1 2 3 4 5 by blast
qed

section \<open>Identity in the request context\<close>

text \<open>Claim C10. For every context and every user ID, reading the user ID back from the
  context that \<open>ContextWithUserID\<close> built returns that user ID with \<open>ok = true\<close>. For
  every context that holds nothing under the package's private key, the read returns
  \<open>ok = false\<close>. A value stored under the bare string key \<^verbatim>\<open>"userID"\<close> is invisible to
  the read: storing it changes nothing.\<close>

theorem user_id_context_roundtrip:
  "GetUserIDFromContext (ContextWithUserID ctx userID) = (userID, True)
   \<and> (Value ctx userContextKey = None \<longrightarrow> GetUserIDFromContext ctx = ([], False))
   \<and> GetUserIDFromContext (WithValue ctx (stringKey ''userID'') v) = GetUserIDFromContext ctx"
  by (simp add: GetUserIDFromContext_def ContextWithUserID_def userContextKey_def)

text \<open>The context of the test \<^verbatim>\<open>TestContextHelpers\<close>, and a context where another
  package stored a value under the string \<^verbatim>\<open>"userID"\<close>.\<close>

theorem user_id_context_roundtrip_witness:
  "Value (WithValue Background (stringKey ''userID'') (AnyString ''intruder'')) userContextKey = None
   \<and> GetUserIDFromContext (WithValue Background (stringKey ''userID'') (AnyString ''intruder'')) = ([], False)
   \<and> GetUserIDFromContext (ContextWithUserID Background ''test-user'') = (''test-user'', True)"
  using user_id_context_roundtrip [of "WithValue Background (stringKey ''userID'') (AnyString ''intruder'')" "''test-user''"]
        user_id_context_roundtrip [of Background "''test-user''"]
  by (simp add: userContextKey_def)

section \<open>Probes and startup of the base server\<close>

text \<open>Claim C8. A server built by \<open>NewBaseServer\<close> is not ready. After \<open>SetReady\<close> with
  true the readiness handler answers 200 with body \<^verbatim>\<open>READY\<close>, after \<open>SetReady\<close> with false
  it answers 503 with body \<^verbatim>\<open>NOT READY\<close>, and the liveness handler answers 200 with body
  \<^verbatim>\<open>OK\<close> in every state; the same holds for requests to \<^verbatim>\<open>/readyz\<close> and
  \<^verbatim>\<open>/healthz\<close> served through the mux of a new server.\<close>

theorem readiness_and_liveness_probes:
  "isReady (NewBaseServer logger httpPort) = False
   \<and> isReady (SetReady s ready) = ready
   \<and> readyzHandler (SetReady s True) NewRecorder r = \<lparr>Code = Some 200, Body = ''READY''\<rparr>
   \<and> readyzHandler (SetReady s False) NewRecorder r = \<lparr>Code = Some 503, Body = ''NOT READY''\<rparr>
   \<and> healthzHandler s NewRecorder r = \<lparr>Code = Some 200, Body = ''OK''\<rparr>
   \<and> ServeHTTP promhttpHandler (NewBaseServer logger httpPort) NewRecorder (r\<lparr>URLPath := ''/readyz''\<rparr>)
        = \<lparr>Code = Some 503, Body = ''NOT READY''\<rparr>
   \<and> ServeHTTP promhttpHandler (SetReady (NewBaseServer logger httpPort) True) NewRecorder
        (r\<lparr>URLPath := ''/readyz''\<rparr>) = \<lparr>Code = Some 200, Body = ''READY''\<rparr>
   \<and> ServeHTTP promhttpHandler (SetReady (SetReady (NewBaseServer logger httpPort) True) False) NewRecorder
        (r\<lparr>URLPath := ''/readyz''\<rparr>) = \<lparr>Code = Some 503, Body = ''NOT READY''\<rparr>
   \<and> ServeHTTP promhttpHandler (NewBaseServer logger httpPort) NewRecorder (r\<lparr>URLPath := ''/healthz''\<rparr>)
        = \<lparr>Code = Some 200, Body = ''OK''\<rparr>
   \<and> ServeHTTP promhttpHandler (SetReady (NewBaseServer logger httpPort) ready) NewRecorder
        (r\<lparr>URLPath := ''/healthz''\<rparr>) = \<lparr>Code = Some 200, Body = ''OK''\<rparr>"
proof -
  have mux: "mux (NewBaseServer logger httpPort) =
      [(''/healthz'', HealthzHandler), (''/readyz'', ReadyzHandler), (''/metrics'', MetricsHandler)]"
    by (simp add: NewBaseServer_def registerDefaultHandlers_def Let_def)
  have mux': "mux (SetReady s' b) = mux s'" for s' b
    by (simp add: SetReady_def Let_def)
  have ready: "isReady (SetReady s' b) = b" for s' b
    by (simp add: SetReady_def Let_def)
  have fresh: "isReady (NewBaseServer logger httpPort) = False"
    by (simp add: NewBaseServer_def registerDefaultHandlers_def Let_def)
  have rz: "readyzHandler s' NewRecorder r' =
      (if isReady s' then \<lparr>Code = Some 200, Body = ''READY''\<rparr> else \<lparr>Code = Some 503, Body = ''NOT READY''\<rparr>)"
    for s' r'
    by (simp add: readyzHandler_def Write_def WriteHeader_def NewRecorder_def StatusOK_def
        StatusServiceUnavailable_def)
  have hz: "healthzHandler s' NewRecorder r' = \<lparr>Code = Some 200, Body = ''OK''\<rparr>" for s' r'
    by (simp add: healthzHandler_def Write_def WriteHeader_def NewRecorder_def StatusOK_def)
  show ?thesis
    by (simp add: ServeHTTP_def mux mux' ready fresh rz hz)
qed

text \<open>Claim C9. If \<^verbatim>\<open>net.Listen\<close> fails, \<open>Start\<close> returns the error
  \<^verbatim>\<open>failed to listen on port ...\<close> and leaves the server and every channel as they were.
  If \<open>Start\<close> changes the state of a channel at all, then the listener was bound, the
  server's \<open>actualAddr\<close> holds the bound address, and the channel is the registered ready
  channel, which was open and is now closed. And when the listener is bound and an open
  ready channel is registered, \<open>Start\<close> closes that channel and no other.\<close>

theorem listener_bound_signal:
  "(Listen net (HTTPPort s) = Inl err \<longrightarrow>
      Start net chans s =
        (s, chans, Returned (Some (''failed to listen on port '' @ HTTPPort s @ '': '' @ err))))
   \<and> (Start net chans s = (s', chans', outcome) \<and> chans' ch \<noteq> chans ch \<longrightarrow>
        (\<exists>addr. Listen net (HTTPPort s) = Inr addr \<and> actualAddr s' = addr)
        \<and> readyChan s = Some ch \<and> chans ch = ChanOpen \<and> chans' ch = ChanClosed)
   \<and> (Listen net (HTTPPort s) = Inr addr \<and> readyChan s = Some ch \<and> chans ch = ChanOpen
        \<and> Start net chans s = (s', chans', outcome) \<longrightarrow>
        chans' ch = ChanClosed \<and> actualAddr s' = addr \<and> (\<forall>c. c \<noteq> ch \<longrightarrow> chans' c = chans c))"
proof (intro conjI impI)
  assume "Listen net (HTTPPort s) = Inl err"
  then show "Start net chans s =
        (s, chans, Returned (Some (''failed to listen on port '' @ HTTPPort s @ '': '' @ err)))"
    by (simp add: Start_def)
next
  assume a: "Start net chans s = (s', chans', outcome) \<and> chans' ch \<noteq> chans ch"
  then show "\<exists>addr. Listen net (HTTPPort s) = Inr addr \<and> actualAddr s' = addr"
    by (auto simp add: Start_def Let_def split: sum.splits option.splits if_splits ServeError.splits)
  from a show "readyChan s = Some ch"
    by (auto simp add: Start_def Let_def split: sum.splits option.splits if_splits ServeError.splits)
  from a show "chans ch = ChanOpen"
    by (cases "chans ch") (auto simp add: Start_def Let_def split: sum.splits option.splits if_splits ServeError.splits)
  from a show "chans' ch = ChanClosed"
    by (auto simp add: Start_def Let_def split: sum.splits option.splits if_splits ServeError.splits)
next
  assume a: "Listen net (HTTPPort s) = Inr addr \<and> readyChan s = Some ch \<and> chans ch = ChanOpen
        \<and> Start net chans s = (s', chans', outcome)"
  then show "chans' ch = ChanClosed"
    by (auto simp add: Start_def Let_def split: option.splits ServeError.splits)
  from a show "actualAddr s' = addr"
    by (auto simp add: Start_def Let_def split: option.splits ServeError.splits)
  from a show "\<forall>c. c \<noteq> ch \<longrightarrow> chans' c = chans c"
    by (auto simp add: Start_def Let_def split: option.splits ServeError.splits)
qed

text \<open>The fixture's server started on a taken port, and on a free one.\<close>

theorem listener_bound_signal_witness:
  "Listen (testNet False) (HTTPPort testServer) = Inl ''listen tcp: address already in use''
   \<and> Start (testNet False) (\<lambda>c. ChanOpen) testServer =
       (testServer, (\<lambda>c. ChanOpen),
        Returned (Some ''failed to listen on port :8080: listen tcp: address already in use''))
   \<and> Listen (testNet True) (HTTPPort testServer) = Inr ''[::]:8080''
   \<and> readyChan testServer = Some 0
   \<and> fst (snd (Start (testNet True) (\<lambda>c. ChanOpen) testServer)) 0 = ChanClosed
   \<and> fst (snd (Start (testNet True) (\<lambda>c. ChanOpen) testServer)) 1 = ChanOpen
   \<and> actualAddr (fst (Start (testNet True) (\<lambda>c. ChanOpen) testServer)) = ''[::]:8080''
   \<and> snd (snd (Start (testNet True) (\<lambda>c. ChanOpen) testServer)) = Blocked"
proof -
  let ?R = "Start (testNet True) (\<lambda>c. ChanOpen) testServer"
  have port: "HTTPPort testServer = '':8080''" and chan: "readyChan testServer = Some 0"
    by (simp_all add: testServer_def SetReadyChannel_def NewBaseServer_def registerDefaultHandlers_def
        HasPrefix_def Let_def)
  have taken: "Listen (testNet False) (HTTPPort testServer) = Inl ''listen tcp: address already in use''"
    and free: "Listen (testNet True) (HTTPPort testServer) = Inr ''[::]:8080''"
    by (simp_all add: testNet_def port)
  have blocked: "snd (snd ?R) = Blocked"
    by (simp add: Start_def free chan testNet_def Let_def)
  have result: "?R = (fst ?R, fst (snd ?R), snd (snd ?R))"
    by simp
  have failing: "Start (testNet False) (\<lambda>c. ChanOpen) testServer =
       (testServer, (\<lambda>c. ChanOpen),
        Returned (Some (''failed to listen on port '' @ HTTPPort testServer @ '': '' @
          ''listen tcp: address already in use'')))"
    using listener_bound_signal [where net = "testNet False" and s = testServer
      and chans = "\<lambda>c. ChanOpen" and err = "''listen tcp: address already in use''",
      THEN conjunct1] taken
    by (rule mp)
  have bound: "fst (snd ?R) 0 = ChanClosed \<and> actualAddr (fst ?R) = ''[::]:8080''
      \<and> (\<forall>c. c \<noteq> 0 \<longrightarrow> fst (snd ?R) c = ChanOpen)"
    using listener_bound_signal [where net = "testNet True" and s = testServer
      and chans = "\<lambda>c. ChanOpen" and ch = 0 and addr = "''[::]:8080''"
      and s' = "fst ?R" and chans' = "fst (snd ?R)" and outcome = "snd (snd ?R)",
      THEN conjunct2, THEN conjunct2] free chan result
    by blast
  then have other: "fst (snd ?R) 1 = ChanOpen"
    by simp
  have changed: "fst (snd ?R) 0 \<noteq> (\<lambda>c. ChanOpen) 0"
    by (simp add: Start_def free chan testNet_def Let_def)
  have only_after: "(\<exists>addr. Listen (testNet True) (HTTPPort testServer) = Inr addr
        \<and> actualAddr (fst ?R) = addr)
      \<and> readyChan testServer = Some 0 \<and> (\<lambda>c. ChanOpen) 0 = ChanOpen \<and> fst (snd ?R) 0 = ChanClosed"
    using listener_bound_signal [where net = "testNet True" and s = testServer
      and chans = "\<lambda>c. ChanOpen" and ch = 0
      and s' = "fst ?R" and chans' = "fst (snd ?R)" and outcome = "snd (snd ?R)",
      THEN conjunct2, THEN conjunct1] result changed
    by blast
  show ?thesis
    using taken free chan blocked bound other failing only_after
    by (simp add: port)
qed

end
